theory Spec2Isabelle
  imports Complex_Main "HOL-Library.Word"
begin

text \<open>
  A shallow embedding of \<^verbatim>\<open>App.tsx\<close> of the voice translator: the message handler with
  its transcript buffers and its playback scheduler, and the start, stop, close and
  error paths of a session. State is passed explicitly; what the browser and the
  network answer is given to each function from outside.
\<close>

section \<open>Data model\<close>

subsection \<open>types.ts\<close>

datatype Role = User | Model

record Transcription =
  role :: Role
  text' :: string
  timestamp :: int

datatype TranslationMode = AUTO | EN_TO_ES | ES_TO_EN

record TranslationSessionState =
  isActive :: bool
  isConnecting :: bool
  mode :: TranslationMode
  error :: "string option"

subsection \<open>The inbound message, as far as App.tsx reads it\<close>

text \<open>
  Only the fields that \<^verbatim>\<open>onmessage\<close> reads are kept. A field that may be
  \<^verbatim>\<open>undefined\<close> is an \<open>option\<close>; the two flags are tested for truthiness only,
  so an absent flag is \<open>False\<close>.
\<close>

record TranscriptionMsg =
  msg_text :: "string option"

record Blob =
  data :: "string option"

record Part =
  inlineData :: "Blob option"

record Content =
  parts :: "Part list option"

record LiveServerContent =
  inputTranscription :: "TranscriptionMsg option"
  outputTranscription :: "TranscriptionMsg option"
  turnComplete :: bool
  modelTurn :: "Content option"
  interrupted :: bool

record LiveServerMessage =
  serverContent :: "LiveServerContent option"

subsection \<open>Objects of the browser that the component holds or calls\<close>

text \<open>
  An audio context is known by the sample rate it was made with, a media stream by its
  tracks, a source node by the order of its creation and the buffer it plays. A decoded
  buffer has its samples, its sample rate and its duration in seconds.
\<close>

datatype AudioContext = AudioContext nat

record MediaStream =
  getTracks :: "nat list"

record AudioBuffer =
  samples :: "real list"
  sampleRate :: nat
  duration :: real

record AudioBufferSourceNode =
  node_id :: nat
  buffer :: AudioBuffer

text \<open>
  The calls by which the component starts, stops and releases what is outside itself
  are appended to a trace, in the order of the calls: \<^verbatim>\<open>sourceNode.start(when)\<close>,
  \<^verbatim>\<open>source.stop()\<close>, \<^verbatim>\<open>ctx.close()\<close>, \<^verbatim>\<open>track.stop()\<close>,
  \<^verbatim>\<open>activeSession.close()\<close>, and the calls of the console. The wiring of the audio
  graph (\<^verbatim>\<open>createBufferSource\<close>, \<^verbatim>\<open>connect\<close>, \<^verbatim>\<open>addEventListener\<close>) and the
  sending of captured frames are not traced.
\<close>

datatype Call =
    Start AudioBufferSourceNode real
  | Stop AudioBufferSourceNode
  | Close AudioContext
  | TrackStop nat
  | SessionClose
  | ConsoleLog string
  | ConsoleError string

subsection \<open>The state of the App component (App.tsx, lines 13 to 29)\<close>

record TranscriptionBuffer =
  user :: string
  model :: string

text \<open>
  React state and refs are fields of one record, updated at once. \<open>sourcesRef\<close> is a
  JavaScript \<^verbatim>\<open>Set\<close>: a duplicate-free list in insertion order, the order in which
  \<^verbatim>\<open>forEach\<close> visits it. \<open>created\<close> counts the nodes made by
  \<^verbatim>\<open>createBufferSource\<close>, which gives each new node its identity.
  Times are real numbers; \<^verbatim>\<open>NaN\<close> and the rounding of doubles are not modelled.
\<close>

record App =
  session :: TranslationSessionState
  transcriptions :: "Transcription list"
  micStream :: "MediaStream option"
  sessionPromiseRef :: bool
  inputAudioContextRef :: "AudioContext option"
  outputAudioContextRef :: "AudioContext option"
  nextStartTimeRef :: real
  sourcesRef :: "AudioBufferSourceNode list"
  transcriptionBufferRef :: TranscriptionBuffer
  calls :: "Call list"
  created :: nat

definition initialApp :: App where
  "initialApp =
     \<lparr>session = \<lparr>isActive = False, isConnecting = False, mode = AUTO, error = None\<rparr>,
      transcriptions = [],
      micStream = None,
      sessionPromiseRef = False,
      inputAudioContextRef = None,
      outputAudioContextRef = None,
      nextStartTimeRef = 0,
      sourcesRef = [],
      transcriptionBufferRef = \<lparr>user = [], model = []\<rparr>,
      calls = [],
      created = 0\<rparr>"

section \<open>The message handler (App.tsx, lines 111 to 159)\<close>

subsection \<open>What the handler reads from outside\<close>

text \<open>
  \<open>currentTime\<close> is \<^verbatim>\<open>ctx.currentTime\<close> as read on line 137; \<open>dateNow1\<close> and
  \<open>dateNow2\<close> are the values of the two calls of \<^verbatim>\<open>Date.now()\<close> on lines 126 and
  127, in this order.
\<close>

record Env =
  currentTime :: real
  dateNow1 :: int
  dateNow2 :: int

datatype HandlerError = TypeError | DecodeError

subsection \<open>JavaScript strings\<close>

text \<open>
  A \<open>char\<close> stands for one code unit below 256. Of the code points that
  \<^verbatim>\<open>String.prototype.trim\<close> removes, those in this range are TAB, LF, VT, FF, CR,
  SPACE and NBSP. \<^verbatim>\<open>s += t\<close> with \<^verbatim>\<open>t\<close> undefined appends the text
  \<^verbatim>\<open>undefined\<close>; a string is truthy when it is not empty.
\<close>

definition isWhiteSpace :: "char \<Rightarrow> bool" where
  "isWhiteSpace c = (of_char c \<in> set [9, 10, 11, 12, 13, 32, 160 :: nat])"

definition trim :: "string \<Rightarrow> string" where
  "trim s = rev (dropWhile isWhiteSpace (rev (dropWhile isWhiteSpace s)))"

definition plusAssign :: "string \<Rightarrow> string option \<Rightarrow> string" where
  "plusAssign s t = s @ (case t of None \<Rightarrow> ''undefined'' | Some x \<Rightarrow> x)"

subsection \<open>Handle Transcription (lines 112 to 131)\<close>

definition handleTranscription :: "Env \<Rightarrow> LiveServerMessage \<Rightarrow> App \<Rightarrow> App" where
  "handleTranscription env message st =
     (let st1 = (case Option.bind (serverContent message) inputTranscription of
                   Some t \<Rightarrow>
                     st\<lparr>transcriptionBufferRef := (transcriptionBufferRef st)
                          \<lparr>user := plusAssign (user (transcriptionBufferRef st)) (msg_text t)\<rparr>\<rparr>
                 | None \<Rightarrow> st);
          st2 = (case Option.bind (serverContent message) outputTranscription of
                   Some t \<Rightarrow>
                     st1\<lparr>transcriptionBufferRef := (transcriptionBufferRef st1)
                          \<lparr>model := plusAssign (model (transcriptionBufferRef st1)) (msg_text t)\<rparr>\<rparr>
                 | None \<Rightarrow> st1)
      in if (case serverContent message of Some sc \<Rightarrow> turnComplete sc | None \<Rightarrow> False)
         then
           (let userText = trim (user (transcriptionBufferRef st2));
                modelText = trim (model (transcriptionBufferRef st2));
                st3 = (if userText \<noteq> [] \<or> modelText \<noteq> []
                       then st2\<lparr>transcriptions := transcriptions st2
                              @ (if userText \<noteq> []
                                 then [\<lparr>role = User, text' = userText, timestamp = dateNow1 env\<rparr>]
                                 else [])
                              @ (if modelText \<noteq> []
                                 then [\<lparr>role = Model, text' = modelText, timestamp = dateNow2 env + 1\<rparr>]
                                 else [])\<rparr>
                       else st2)
            in st3\<lparr>transcriptionBufferRef := \<lparr>user = [], model = []\<rparr>\<rparr>)
         else st2)"

subsection \<open>Handle Audio Output (lines 133 to 151)\<close>

text \<open>
  Line 134: the optional chain stops at an absent \<open>serverContent\<close>, \<open>modelTurn\<close>,
  first part, or \<open>inlineData\<close>; \<^verbatim>\<open>parts[0]\<close> itself is not guarded, so a
  \<open>modelTurn\<close> without \<open>parts\<close> throws a TypeError.
\<close>

definition base64Audio :: "LiveServerMessage \<Rightarrow> HandlerError + string option" where
  "base64Audio message =
     (case serverContent message of
        None \<Rightarrow> Inr None
      | Some sc \<Rightarrow>
          (case modelTurn sc of
             None \<Rightarrow> Inr None
           | Some mt \<Rightarrow>
               (case parts mt of
                  None \<Rightarrow> Inl TypeError
                | Some ps \<Rightarrow>
                    (case ps of
                       [] \<Rightarrow> Inr None
                     | p # _ \<Rightarrow>
                         (case inlineData p of
                            None \<Rightarrow> Inr None
                          | Some b \<Rightarrow> Inr (data b))))))"

text \<open>
  \<open>Set.add\<close> and \<open>Set.delete\<close> on the insertion-ordered list.
\<close>

definition set_add :: "'a \<Rightarrow> 'a list \<Rightarrow> 'a list" where
  "set_add x xs = (if x \<in> set xs then xs else xs @ [x])"

definition set_delete :: "'a \<Rightarrow> 'a list \<Rightarrow> 'a list" where
  "set_delete x xs = removeAll x xs"

text \<open>
  \<^verbatim>\<open>utils/audio-processing\<close> is not among the sources, so the decoder
  \<^verbatim>\<open>decodeAudioData(decode(base64Audio), ctx, 24000, 1)\<close> is the parameter \<open>dec\<close>:
  it yields the decoded buffer or rejects. The handler has no \<^verbatim>\<open>try\<close>: an
  exception ends it there, and what it has written before stays written, so the
  result on an exception is the exception together with the state left behind.
  The \<^verbatim>\<open>await\<close> on line 139 is taken as one step with the rest of the handler.
\<close>

definition handleAudioOutput ::
  "(string \<Rightarrow> HandlerError + AudioBuffer) \<Rightarrow> Env \<Rightarrow> LiveServerMessage \<Rightarrow> App
     \<Rightarrow> (HandlerError \<times> App) + App" where
  "handleAudioOutput dec env message st =
     (case base64Audio message of
        Inl e \<Rightarrow> Inl (e, st)
      | Inr None \<Rightarrow> Inr st
      | Inr (Some b) \<Rightarrow>
          (if b \<noteq> [] \<and> outputAudioContextRef st \<noteq> None
           then
             (let st1 = st\<lparr>nextStartTimeRef := max (nextStartTimeRef st) (currentTime env)\<rparr>
              in case dec b of
                   Inl e \<Rightarrow> Inl (e, st1)
                 | Inr audioBuffer \<Rightarrow>
                     (let sourceNode = \<lparr>node_id = created st1, buffer = audioBuffer\<rparr>
                      in Inr (st1\<lparr>created := Suc (created st1),
                                  calls := calls st1 @ [Start sourceNode (nextStartTimeRef st1)],
                                  nextStartTimeRef := nextStartTimeRef st1 + duration audioBuffer,
                                  sourcesRef := set_add sourceNode (sourcesRef st1)\<rparr>)))
           else Inr st))"

text \<open>The listener of lines 144 to 146, run when a node has played to its end.\<close>

definition onended :: "AudioBufferSourceNode \<Rightarrow> App \<Rightarrow> App" where
  "onended sourceNode st = st\<lparr>sourcesRef := set_delete sourceNode (sourcesRef st)\<rparr>"

subsection \<open>Handle Interruptions (lines 153 to 158)\<close>

definition handleInterruptions :: "LiveServerMessage \<Rightarrow> App \<Rightarrow> App" where
  "handleInterruptions message st =
     (if (case serverContent message of Some sc \<Rightarrow> interrupted sc | None \<Rightarrow> False)
      then st\<lparr>calls := calls st @ map Stop (sourcesRef st),
              sourcesRef := [],
              nextStartTimeRef := 0\<rparr>
      else st)"

subsection \<open>The handler\<close>

definition onmessage ::
  "(string \<Rightarrow> HandlerError + AudioBuffer) \<Rightarrow> Env \<Rightarrow> LiveServerMessage \<Rightarrow> App
     \<Rightarrow> (HandlerError \<times> App) + App" where
  "onmessage dec env message st =
     (case handleAudioOutput dec env message (handleTranscription env message st) of
        Inl r \<Rightarrow> Inl r
      | Inr st' \<Rightarrow> Inr (handleInterruptions message st'))"

text \<open>The state a handler leaves behind, whether it returned or threw.\<close>

fun after :: "(HandlerError \<times> App) + App \<Rightarrow> App" where
  "after (Inl (e, st)) = st"
| "after (Inr st) = st"

text \<open>Messages are handled one after the other, each with its own readings.\<close>

fun onmessages ::
  "(string \<Rightarrow> HandlerError + AudioBuffer) \<Rightarrow> (Env \<times> LiveServerMessage) list \<Rightarrow> App \<Rightarrow> App" where
  "onmessages dec [] st = st"
| "onmessages dec ((env, message) # rest) st =
     onmessages dec rest (after (onmessage dec env message st))"

section \<open>Session lifecycle\<close>

subsection \<open>cleanupAudio (lines 32 to 48)\<close>

definition cleanupAudio :: "App \<Rightarrow> App" where
  "cleanupAudio st =
     (let st1 = (case inputAudioContextRef st of
                   Some c \<Rightarrow> st\<lparr>calls := calls st @ [Close c], inputAudioContextRef := None\<rparr>
                 | None \<Rightarrow> st);
          st2 = (case outputAudioContextRef st1 of
                   Some c \<Rightarrow> st1\<lparr>calls := calls st1 @ [Close c], outputAudioContextRef := None\<rparr>
                 | None \<Rightarrow> st1);
          st3 = (case micStream st2 of
                   Some stream \<Rightarrow>
                     st2\<lparr>calls := calls st2 @ map TrackStop (getTracks stream), micStream := None\<rparr>
                 | None \<Rightarrow> st2)
      in st3\<lparr>calls := calls st3 @ map Stop (sourcesRef st3),
              sourcesRef := [],
              nextStartTimeRef := 0\<rparr>)"

subsection \<open>startSession (lines 65 to 177)\<close>

text \<open>
  A value thrown into the \<^verbatim>\<open>catch\<close> of line 173 is read for its
  \<^verbatim>\<open>message\<close> only. What the browser answers to the acquisitions inside the
  \<^verbatim>\<open>try\<close> is given from outside: \<^verbatim>\<open>getUserMedia\<close> and the constructors
  either yield their object or throw. \<^verbatim>\<open>ai.live.connect\<close> is not awaited, so
  it hands back a promise and the \<^verbatim>\<open>catch\<close> never sees its failure.
\<close>

record Thrown =
  message :: "string option"

record StartEnv =
  getUserMedia :: "Thrown + MediaStream"
  newGoogleGenAI :: "Thrown option"
  newInputCtx :: "Thrown + AudioContext"
  newOutputCtx :: "Thrown + AudioContext"

definition startFailed :: "Thrown \<Rightarrow> App \<Rightarrow> App" where
  "startFailed err st =
     st\<lparr>calls := calls st @ [ConsoleError ''Failed to start session:''],
        session := (session st)
          \<lparr>error := Some (case message err of
                            Some m \<Rightarrow> if m \<noteq> [] then m else ''Failed to connect.''
                          | None \<Rightarrow> ''Failed to connect.''),
           isConnecting := False\<rparr>\<rparr>"

definition startSession :: "StartEnv \<Rightarrow> App \<Rightarrow> App" where
  "startSession env st =
     (let st0 = st\<lparr>session := (session st)\<lparr>isConnecting := True, error := None\<rparr>\<rparr>
      in case getUserMedia env of
           Inl err \<Rightarrow> startFailed err st0
         | Inr stream \<Rightarrow>
             (let st1 = st0\<lparr>micStream := Some stream\<rparr>
              in case newGoogleGenAI env of
                   Some err \<Rightarrow> startFailed err st1
                 | None \<Rightarrow>
                     (case newInputCtx env of
                        Inl err \<Rightarrow> startFailed err st1
                      | Inr inputCtx \<Rightarrow>
                          (case newOutputCtx env of
                             Inl err \<Rightarrow> startFailed err st1
                           | Inr outputCtx \<Rightarrow>
                               st1\<lparr>inputAudioContextRef := Some inputCtx,
                                   outputAudioContextRef := Some outputCtx,
                                   sessionPromiseRef := True\<rparr>))))"

subsection \<open>The callbacks of the network session (lines 96 to 110 and 160 to 167)\<close>

text \<open>The wiring of the capture nodes in \<^verbatim>\<open>onopen\<close> is not traced.\<close>

definition onopen :: "App \<Rightarrow> App" where
  "onopen st =
     st\<lparr>calls := calls st @ [ConsoleLog ''Gemini Live session opened''],
        session := (session st)\<lparr>isActive := True, isConnecting := False\<rparr>\<rparr>"

definition onerror :: "App \<Rightarrow> App" where
  "onerror st =
     st\<lparr>calls := calls st @ [ConsoleError ''Session error:''],
        session := (session st)
          \<lparr>error := Some ''Connection error occurred.'', isActive := False, isConnecting := False\<rparr>\<rparr>"

definition onclose :: "App \<Rightarrow> App" where
  "onclose st =
     st\<lparr>calls := calls st @ [ConsoleLog ''Session closed''],
        session := (session st)\<lparr>isActive := False, isConnecting := False\<rparr>\<rparr>"

subsection \<open>toggleSession (lines 50 to 63)\<close>

definition toggleSession :: "StartEnv \<Rightarrow> App \<Rightarrow> App" where
  "toggleSession env st =
     (if isActive (session st)
      then
        (let st1 = (if sessionPromiseRef st then st\<lparr>calls := calls st @ [SessionClose]\<rparr> else st);
             st2 = cleanupAudio st1
         in st2\<lparr>session := (session st2)\<lparr>isActive := False, isConnecting := False\<rparr>\<rparr>)
      else startSession env st)"

text \<open>Whether the component holds a microphone stream or an audio context.\<close>

definition holdsDevice :: "App \<Rightarrow> bool" where
  "holdsDevice st =
     (\<not> (micStream st = None \<and> inputAudioContextRef st = None \<and> outputAudioContextRef st = None))"

section \<open>The audio codec of utils/audio-processing\<close>

type_synonym byte = "8 word"

text \<open>
  The 16-bit little-endian view of a byte sequence (an \<^verbatim>\<open>Int16Array\<close> over the
  bytes) and the bytes of a 16-bit sample, low byte first.
\<close>

fun int16s :: "byte list \<Rightarrow> 16 word list" where
  "int16s (lo # hi # rest) = word_cat hi lo # int16s rest"
| "int16s _ = []"

definition le_bytes :: "16 word \<Rightarrow> byte list" where
  "le_bytes w = [ucast w, ucast (drop_bit 8 w)]"

text \<open>
  Modelled from the spec: \<^verbatim>\<open>createBlob\<close> of \<^verbatim>\<open>utils/audio-processing\<close>, the
  Frame Encoder, is not among the sources. The spec (4.1) gives its output as a frame of
  16-bit signed little-endian samples of the same length, each sample
  \<^verbatim>\<open>round(clamp(x,-1,1) * 32767)\<close>. \<open>round\<close> is to the nearest integer, a half
  upwards, as \<^verbatim>\<open>Math.round\<close>; the samples are real numbers, so \<^verbatim>\<open>NaN\<close> is not
  an input.
\<close>

definition clamp :: "real \<Rightarrow> real" where
  "clamp x = max (- 1) (min 1 x)"

definition createBlob :: "real list \<Rightarrow> byte list" where
  "createBlob inputData =
     concat (map (\<lambda>x. le_bytes (word_of_int (round (clamp x * 32767)))) inputData)"

text \<open>
  Modelled from the spec: \<^verbatim>\<open>decodeAudioData\<close> of \<^verbatim>\<open>utils/audio-processing\<close>,
  the Chunk Decoder, is not among the sources. The spec (4.2) gives a buffer of
  \<^verbatim>\<open>payloadLength / 2\<close> samples, each \<^verbatim>\<open>int16 / 32768.0\<close>, of duration
  \<^verbatim>\<open>sampleCount / sampleRate\<close>, and a \<^verbatim>\<open>DecodeError\<close> when the payload is
  empty or its length is not a multiple of 2.
\<close>

definition decodeAudioData :: "byte list \<Rightarrow> nat \<Rightarrow> nat \<Rightarrow> HandlerError + AudioBuffer" where
  "decodeAudioData payload rate numChannels =
     (if payload = [] \<or> length payload mod 2 \<noteq> 0
      then Inl DecodeError
      else Inr \<lparr>samples = map (\<lambda>w. real_of_int (sint w) / 32768) (int16s payload),
                sampleRate = rate,
                duration = real (length payload div 2) / real rate\<rparr>)"

section \<open>Observations used in the statements\<close>

text \<open>A message that carries the interruption flag.\<close>

definition isInterrupted :: "LiveServerMessage \<Rightarrow> bool" where
  "isInterrupted m = (case serverContent m of Some sc \<Rightarrow> interrupted sc | None \<Rightarrow> False)"

text \<open>
  The buffer that the audio part of a message enqueues: the message has a non-empty
  payload and the decoder accepts it.
\<close>

definition speechChunk ::
  "(string \<Rightarrow> HandlerError + AudioBuffer) \<Rightarrow> LiveServerMessage \<Rightarrow> AudioBuffer option" where
  "speechChunk dec m =
     (case base64Audio m of
        Inr (Some b) \<Rightarrow>
          (if b \<noteq> [] then (case dec b of Inr buf \<Rightarrow> Some buf | Inl e \<Rightarrow> None) else None)
      | _ \<Rightarrow> None)"

text \<open>The calls a step has added to the trace, and the transcript entries it has added.\<close>

definition newCalls :: "App \<Rightarrow> App \<Rightarrow> Call list" where
  "newCalls st st' = drop (length (calls st)) (calls st')"

definition emitted :: "App \<Rightarrow> App \<Rightarrow> Transcription list" where
  "emitted st st' = drop (length (transcriptions st)) (transcriptions st')"

text \<open>The buffers started in a trace, each with its start time, in the order of the calls.\<close>

fun started :: "Call list \<Rightarrow> (AudioBuffer \<times> real) list" where
  "started [] = []"
| "started (Start n t # cs) = (buffer n, t) # started cs"
| "started (c # cs) = started cs"

text \<open>
  A run of messages each of which enqueues one buffer and carries no interruption,
  with the buffers they decode to.
\<close>

fun chunks ::
  "(string \<Rightarrow> HandlerError + AudioBuffer) \<Rightarrow> (Env \<times> LiveServerMessage) list
     \<Rightarrow> AudioBuffer list \<Rightarrow> bool" where
  "chunks dec [] [] = True"
| "chunks dec ((env, m) # evs) (buf # bufs) =
     (speechChunk dec m = Some buf \<and> \<not> isInterrupted m \<and> chunks dec evs bufs)"
| "chunks dec _ _ = False"

text \<open>
  Every message of the run arrives while the output clock has not passed
  \<open>nextStartTimeRef\<close>, as it stands when the message arrives.
\<close>

fun inTime ::
  "(string \<Rightarrow> HandlerError + AudioBuffer) \<Rightarrow> (Env \<times> LiveServerMessage) list \<Rightarrow> App \<Rightarrow> bool" where
  "inTime dec [] st = True"
| "inTime dec ((env, m) # evs) st =
     (currentTime env \<le> nextStartTimeRef st \<and> inTime dec evs (after (onmessage dec env m st)))"

text \<open>
  The spec's enqueue (4.4, steps 1 to 3) over a sequence of arrivals: each buffer
  starts at the later of the next start time and the clock, and the next start time
  becomes that start plus the buffer's duration.
\<close>

fun schedule :: "real \<Rightarrow> (Env \<times> AudioBuffer) list \<Rightarrow> (AudioBuffer \<times> real) list" where
  "schedule t [] = []"
| "schedule t ((env, b) # rest) =
     (b, max t (currentTime env)) # schedule (max t (currentTime env) + duration b) rest"

text \<open>Gapless playback from \<open>t\<close>: every buffer starts where the one before it ends.\<close>

fun backToBack :: "real \<Rightarrow> AudioBuffer list \<Rightarrow> (AudioBuffer \<times> real) list" where
  "backToBack t [] = []"
| "backToBack t (b # bs) = (b, t) # backToBack (t + duration b) bs"

text \<open>
  The texts that lines 120 and 121 read: each buffer trimmed, as it stands after the
  fragment of the same message, if there is one, has been appended.
\<close>

definition userText :: "LiveServerMessage \<Rightarrow> App \<Rightarrow> string" where
  "userText m st =
     trim (case Option.bind (serverContent m) inputTranscription of
             Some t \<Rightarrow> plusAssign (user (transcriptionBufferRef st)) (msg_text t)
           | None \<Rightarrow> user (transcriptionBufferRef st))"

definition modelText :: "LiveServerMessage \<Rightarrow> App \<Rightarrow> string" where
  "modelText m st =
     trim (case Option.bind (serverContent m) outputTranscription of
             Some t \<Rightarrow> plusAssign (model (transcriptionBufferRef st)) (msg_text t)
           | None \<Rightarrow> model (transcriptionBufferRef st))"

text \<open>The same message without its audio: \<open>modelTurn\<close> is absent.\<close>

definition withoutChunk :: "LiveServerMessage \<Rightarrow> LiveServerMessage" where
  "withoutChunk m =
     m\<lparr>serverContent := map_option (\<lambda>sc. sc\<lparr>modelTurn := None\<rparr>) (serverContent m)\<rparr>"

text \<open>
  What a step has scheduled: the buffers it started with their start times, the next
  start time it leaves, and the buffers of the handles it leaves in the set.
\<close>

definition scheduling :: "App \<Rightarrow> App \<Rightarrow> (AudioBuffer \<times> real) list \<times> real \<times> AudioBuffer list" where
  "scheduling st st' = (started (newCalls st st'), nextStartTimeRef st', map buffer (sourcesRef st'))"

text \<open>Messages and states for the concrete cases.\<close>

definition interruptedMessage :: LiveServerMessage where
  "interruptedMessage =
     \<lparr>serverContent = Some \<lparr>inputTranscription = None, outputTranscription = None,
        turnComplete = False, modelTurn = None, interrupted = True\<rparr>\<rparr>"

definition turnCompleteMessage :: LiveServerMessage where
  "turnCompleteMessage =
     \<lparr>serverContent = Some \<lparr>inputTranscription = None, outputTranscription = None,
        turnComplete = True, modelTurn = None, interrupted = False\<rparr>\<rparr>"

definition chunkMessage :: "string \<Rightarrow> bool \<Rightarrow> LiveServerMessage" where
  "chunkMessage b i =
     \<lparr>serverContent = Some \<lparr>inputTranscription = None, outputTranscription = None,
        turnComplete = False,
        modelTurn = Some \<lparr>parts = Some [\<lparr>inlineData = Some \<lparr>data = Some b\<rparr>\<rparr>]\<rparr>,
        interrupted = i\<rparr>\<rparr>"

definition clip :: AudioBuffer where
  "clip = \<lparr>samples = [0, 1 / 2, - 1 / 2], sampleRate = 24000, duration = 1 / 8000\<rparr>"

definition clockAt :: "real \<Rightarrow> Env" where
  "clockAt t = \<lparr>currentTime = t, dateNow1 = 1000, dateNow2 = 1000\<rparr>"


definition okStart :: StartEnv where
  "okStart =
     \<lparr>getUserMedia = Inr \<lparr>getTracks = [0]\<rparr>,
      newGoogleGenAI = None,
      newInputCtx = Inr (AudioContext 16000),
      newOutputCtx = Inr (AudioContext 24000)\<rparr>"

text \<open>
  The browser refuses the microphone; the browser grants it but cannot make the
  output context.
\<close>

definition deniedStart :: StartEnv where
  "deniedStart =
     \<lparr>getUserMedia = Inl \<lparr>message = Some ''Permission denied''\<rparr>,
      newGoogleGenAI = None,
      newInputCtx = Inr (AudioContext 16000),
      newOutputCtx = Inr (AudioContext 24000)\<rparr>"

definition noOutputStart :: StartEnv where
  "noOutputStart =
     \<lparr>getUserMedia = Inr \<lparr>getTracks = [0]\<rparr>,
      newGoogleGenAI = None,
      newInputCtx = Inr (AudioContext 16000),
      newOutputCtx = Inl \<lparr>message = None\<rparr>\<rparr>"

text \<open>
  A session that was started and opened, and the same session with one buffer
  scheduled at clock 5.
\<close>

definition activeApp :: App where
  "activeApp = onopen (startSession okStart initialApp)"

definition playingApp :: App where
  "playingApp =
     after (onmessage (\<lambda>b. Inr clip) (clockAt 5) (chunkMessage ''AAAA'' False) activeApp)"


definition twoSamples :: AudioBuffer where
  "twoSamples = \<lparr>samples = [- 1, 32767 / 32768], sampleRate = 24000, duration = 1 / 12000\<rparr>"

text \<open>An open session with text in both transcript buffers, and a last fragment
  for each role that arrives together with the end of the turn.\<close>

definition heardApp :: App where
  "heardApp = activeApp\<lparr>transcriptionBufferRef := \<lparr>user = '' Hello '', model = ''Hola ''\<rparr>\<rparr>"

definition lastFragmentMessage :: LiveServerMessage where
  "lastFragmentMessage =
     \<lparr>serverContent = Some \<lparr>inputTranscription = Some \<lparr>msg_text = Some ''there''\<rparr>,
        outputTranscription = Some \<lparr>msg_text = Some ''mundo''\<rparr>,
        turnComplete = True, modelTurn = None, interrupted = False\<rparr>\<rparr>"

section \<open>Properties\<close>

subsection \<open>Evaluating the concrete cases\<close>

lemmas model_defs =
  onmessage_def handleTranscription_def handleAudioOutput_def handleInterruptions_def
  base64Audio_def set_add_def chunkMessage_def interruptedMessage_def turnCompleteMessage_def
  clockAt_def clip_def okStart_def startSession_def onopen_def initialApp_def
  speechChunk_def isInterrupted_def newCalls_def Let_def

lemma activeApp_eval:
  "activeApp =
     \<lparr>session = \<lparr>isActive = True, isConnecting = False, mode = AUTO, error = None\<rparr>,
      transcriptions = [],
      micStream = Some \<lparr>getTracks = [0]\<rparr>,
      sessionPromiseRef = True,
      inputAudioContextRef = Some (AudioContext 16000),
      outputAudioContextRef = Some (AudioContext 24000),
      nextStartTimeRef = 0,
      sourcesRef = [],
      transcriptionBufferRef = \<lparr>user = [], model = []\<rparr>,
      calls = [ConsoleLog ''Gemini Live session opened''],
      created = 0\<rparr>"
  by (simp add: activeApp_def model_defs)

lemma playingApp_eval:
  "playingApp =
     \<lparr>session = \<lparr>isActive = True, isConnecting = False, mode = AUTO, error = None\<rparr>,
      transcriptions = [],
      micStream = Some \<lparr>getTracks = [0]\<rparr>,
      sessionPromiseRef = True,
      inputAudioContextRef = Some (AudioContext 16000),
      outputAudioContextRef = Some (AudioContext 24000),
      nextStartTimeRef = 40001 / 8000,
      sourcesRef = [\<lparr>node_id = 0, buffer = clip\<rparr>],
      transcriptionBufferRef = \<lparr>user = [], model = []\<rparr>,
      calls = [ConsoleLog ''Gemini Live session opened'', Start \<lparr>node_id = 0, buffer = clip\<rparr> 5],
      created = 1\<rparr>"
  by (simp add: playingApp_def activeApp_eval model_defs)

lemma trim_eval:
  "trim '' Hello '' = ''Hello''" "trim ''Hola '' = ''Hola''"
  "trim '' Hello there'' = ''Hello there''" "trim ''Hola mundo'' = ''Hola mundo''"
  by (simp_all add: trim_def isWhiteSpace_def)

subsection \<open>What each part of the handler leaves alone\<close>

lemma transcription_keeps_playback:
  "nextStartTimeRef (handleTranscription env m st) = nextStartTimeRef st
   \<and> sourcesRef (handleTranscription env m st) = sourcesRef st
   \<and> calls (handleTranscription env m st) = calls st
   \<and> created (handleTranscription env m st) = created st
   \<and> outputAudioContextRef (handleTranscription env m st) = outputAudioContextRef st
   \<and> inputAudioContextRef (handleTranscription env m st) = inputAudioContextRef st
   \<and> micStream (handleTranscription env m st) = micStream st
   \<and> session (handleTranscription env m st) = session st"
  by (simp add: handleTranscription_def Let_def split: option.splits)

lemma audio_keeps_transcripts:
  "transcriptions (after (handleAudioOutput dec env m st)) = transcriptions st
   \<and> transcriptionBufferRef (after (handleAudioOutput dec env m st)) = transcriptionBufferRef st
   \<and> session (after (handleAudioOutput dec env m st)) = session st"
  by (simp add: handleAudioOutput_def Let_def split: sum.splits option.splits)

lemma interruptions_keep_transcripts:
  "transcriptions (handleInterruptions m st) = transcriptions st
   \<and> transcriptionBufferRef (handleInterruptions m st) = transcriptionBufferRef st
   \<and> session (handleInterruptions m st) = session st"
  by (simp add: handleInterruptions_def)

lemma after_onmessage:
  "after (onmessage dec env m st) =
     (case handleAudioOutput dec env m (handleTranscription env m st) of
        Inl (e, st') \<Rightarrow> st' | Inr st' \<Rightarrow> handleInterruptions m st')"
  by (simp add: onmessage_def split: sum.splits prod.splits)

lemma onmessage_transcripts:
  "transcriptions (after (onmessage dec env m st)) = transcriptions (handleTranscription env m st)
   \<and> transcriptionBufferRef (after (onmessage dec env m st)) =
       transcriptionBufferRef (handleTranscription env m st)"
  using audio_keeps_transcripts [of dec env m "handleTranscription env m st"]
    interruptions_keep_transcripts [of m]
  by (auto simp add: after_onmessage split: sum.splits prod.splits)

text \<open>A node that has played to its end leaves the handle set, and nothing else changes.\<close>

lemma onended_removes:
  "sourceNode \<notin> set (sourcesRef (onended sourceNode st))
   \<and> set (sourcesRef (onended sourceNode st)) = set (sourcesRef st) - {sourceNode}
   \<and> onended sourceNode st = st\<lparr>sourcesRef := removeAll sourceNode (sourcesRef st)\<rparr>"
  by (simp add: onended_def set_delete_def)

subsection \<open>One enqueue\<close>

lemma handleAudioOutput_chunk:
  assumes "speechChunk dec m = Some buf" and "outputAudioContextRef st \<noteq> None"
  shows "handleAudioOutput dec env m st =
           Inr (st\<lparr>created := Suc (created st),
                   calls := calls st @ [Start \<lparr>node_id = created st, buffer = buf\<rparr>
                                          (max (nextStartTimeRef st) (currentTime env))],
                   nextStartTimeRef := max (nextStartTimeRef st) (currentTime env) + duration buf,
                   sourcesRef := set_add \<lparr>node_id = created st, buffer = buf\<rparr> (sourcesRef st)\<rparr>)"
  using assms
  by (auto simp add: speechChunk_def handleAudioOutput_def Let_def
      split: sum.splits option.splits if_splits)

lemma onmessage_chunk:
  assumes "speechChunk dec m = Some buf" and "outputAudioContextRef st \<noteq> None"
    and "\<not> isInterrupted m"
  shows "calls (after (onmessage dec env m st)) =
           calls st @ [Start \<lparr>node_id = created st, buffer = buf\<rparr>
                          (max (nextStartTimeRef st) (currentTime env))]"
    and "nextStartTimeRef (after (onmessage dec env m st)) =
           max (nextStartTimeRef st) (currentTime env) + duration buf"
    and "sourcesRef (after (onmessage dec env m st)) =
           set_add \<lparr>node_id = created st, buffer = buf\<rparr> (sourcesRef st)"
    and "created (after (onmessage dec env m st)) = Suc (created st)"
    and "outputAudioContextRef (after (onmessage dec env m st)) = outputAudioContextRef st"
proof -
  let ?s = "handleTranscription env m st"
  have c: "outputAudioContextRef ?s \<noteq> None"
    using assms(2) by (simp add: transcription_keeps_playback)
  have i: "handleInterruptions m x = x" for x
    using assms(3) by (simp add: handleInterruptions_def isInterrupted_def)
  note h = handleAudioOutput_chunk [OF assms(1) c, of env]
  show "calls (after (onmessage dec env m st)) =
           calls st @ [Start \<lparr>node_id = created st, buffer = buf\<rparr>
                          (max (nextStartTimeRef st) (currentTime env))]"
    by (simp add: onmessage_def h i transcription_keeps_playback)
  show "nextStartTimeRef (after (onmessage dec env m st)) =
           max (nextStartTimeRef st) (currentTime env) + duration buf"
    by (simp add: onmessage_def h i transcription_keeps_playback)
  show "sourcesRef (after (onmessage dec env m st)) =
           set_add \<lparr>node_id = created st, buffer = buf\<rparr> (sourcesRef st)"
    by (simp add: onmessage_def h i transcription_keeps_playback)
  show "created (after (onmessage dec env m st)) = Suc (created st)"
    by (simp add: onmessage_def h i transcription_keeps_playback)
  show "outputAudioContextRef (after (onmessage dec env m st)) = outputAudioContextRef st"
    by (simp add: onmessage_def h i transcription_keeps_playback)
qed

subsection \<open>A sequence of enqueues\<close>

lemma backToBack_sums:
  "backToBack t bs = map (\<lambda>i. (bs ! i, t + sum_list (map duration (take i bs)))) [0..<length bs]"
proof (induction bs arbitrary: t)
  case Nil
  show ?case by simp
next
  case (Cons b bs)
  have "map (\<lambda>i. ((b # bs) ! i, t + sum_list (map duration (take i (b # bs))))) [0..<length (b # bs)]
      = (b, t) # map (\<lambda>i. ((b # bs) ! Suc i, t + sum_list (map duration (take (Suc i) (b # bs)))))
                  [0..<length bs]"
    by (simp add: upt_conv_Cons map_Suc_upt [symmetric] del: upt_Suc)
  also have "\<dots> = (b, t) # backToBack (t + duration b) bs"
    by (simp add: Cons.IH add.assoc)
  finally show ?case by simp
qed

lemma run_schedule:
  assumes "chunks dec evs bufs" and "outputAudioContextRef st \<noteq> None"
  shows "\<exists>cs. calls (onmessages dec evs st) = calls st @ cs
            \<and> started cs = schedule (nextStartTimeRef st) (zip (map fst evs) bufs)"
  using assms
proof (induction dec evs bufs arbitrary: st rule: chunks.induct)
  case (1 dec)
  then show ?case by simp
next
  case (2 dec env m evs buf bufs)
  let ?s = "after (onmessage dec env m st)"
  from "2.prems" have c: "speechChunk dec m = Some buf" and i: "\<not> isInterrupted m"
    and r: "chunks dec evs bufs"
    by simp_all
  note step = onmessage_chunk [OF c "2.prems"(2) i, of env]
  have ctx: "outputAudioContextRef ?s \<noteq> None"
    using step(5) "2.prems"(2) by simp
  from "2.IH" [OF r ctx] obtain cs where
    cs: "calls (onmessages dec evs ?s) = calls ?s @ cs"
        "started cs = schedule (nextStartTimeRef ?s) (zip (map fst evs) bufs)"
    by blast
  show ?case
    using cs step(1) step(2) by simp
qed simp_all

lemma run_in_time:
  assumes "chunks dec evs bufs" and "outputAudioContextRef st \<noteq> None" and "inTime dec evs st"
  shows "\<exists>cs. calls (onmessages dec evs st) = calls st @ cs
            \<and> started cs = backToBack (nextStartTimeRef st) bufs"
  using assms
proof (induction dec evs bufs arbitrary: st rule: chunks.induct)
  case (1 dec)
  then show ?case by simp
next
  case (2 dec env m evs buf bufs)
  let ?s = "after (onmessage dec env m st)"
  from "2.prems" have c: "speechChunk dec m = Some buf" and i: "\<not> isInterrupted m"
    and r: "chunks dec evs bufs" and t: "currentTime env \<le> nextStartTimeRef st"
    and it: "inTime dec evs ?s"
    by simp_all
  note step = onmessage_chunk [OF c "2.prems"(2) i, of env]
  have ctx: "outputAudioContextRef ?s \<noteq> None"
    using step(5) "2.prems"(2) by simp
  from "2.IH" [OF r ctx it] obtain cs where
    cs: "calls (onmessages dec evs ?s) = calls ?s @ cs"
        "started cs = backToBack (nextStartTimeRef ?s) bufs"
    by blast
  have n: "nextStartTimeRef ?s = nextStartTimeRef st + duration buf"
    using step(2) t by (simp add: max_def)
  have m: "max (nextStartTimeRef st) (currentTime env) = nextStartTimeRef st"
    using t by (simp add: max_def)
  show ?case
    using cs step(1) n m by simp
qed simp_all


text \<open>
  C1. Enqueuing a decoded buffer starts it at \<open>max nextStartTimeRef currentTime\<close> and
  advances \<open>nextStartTimeRef\<close> to that start plus the buffer's duration; over a sequence
  of enqueues every buffer is started by this rule, and when each later message arrives
  before the output clock has passed \<open>nextStartTimeRef\<close>, the start times are
  \<open>t0\<close>, \<open>t0 + d1\<close>, \<open>t0 + d1 + d2\<close>, ...: each buffer starts exactly where the
  one before it ends.
\<close>

theorem enqueue_back_to_back:
  assumes ctx: "outputAudioContextRef st \<noteq> None"
    and ch: "chunks dec ((env, m) # evs) (buf # bufs)"
  shows "newCalls st (after (onmessage dec env m st)) =
           [Start \<lparr>node_id = created st, buffer = buf\<rparr> (max (nextStartTimeRef st) (currentTime env))]
       \<and> nextStartTimeRef (after (onmessage dec env m st)) =
           max (nextStartTimeRef st) (currentTime env) + duration buf
       \<and> started (newCalls st (onmessages dec ((env, m) # evs) st)) =
           schedule (nextStartTimeRef st) (zip (env # map fst evs) (buf # bufs))
       \<and> (inTime dec evs (after (onmessage dec env m st)) \<longrightarrow>
           started (newCalls st (onmessages dec ((env, m) # evs) st)) =
             map (\<lambda>i. ((buf # bufs) ! i,
                        max (nextStartTimeRef st) (currentTime env)
                          + sum_list (map duration (take i (buf # bufs)))))
                 [0..<length (buf # bufs)])"
proof -
  let ?s = "after (onmessage dec env m st)"
  let ?t = "max (nextStartTimeRef st) (currentTime env)"
  from ch have c: "speechChunk dec m = Some buf" and i: "\<not> isInterrupted m"
    and r: "chunks dec evs bufs"
    by simp_all
  note step = onmessage_chunk [OF c ctx i, of env]
  have a: "newCalls st ?s = [Start \<lparr>node_id = created st, buffer = buf\<rparr> ?t]"
    by (simp add: newCalls_def step(1))
  have b: "nextStartTimeRef ?s = ?t + duration buf"
    by (rule step(2))
  from run_schedule [OF ch ctx] obtain cs where
    cs: "calls (onmessages dec ((env, m) # evs) st) = calls st @ cs"
        "started cs = schedule (nextStartTimeRef st) (zip (map fst ((env, m) # evs)) (buf # bufs))"
    by blast
  have s: "started (newCalls st (onmessages dec ((env, m) # evs) st)) =
           schedule (nextStartTimeRef st) (zip (env # map fst evs) (buf # bufs))"
    using cs by (simp add: newCalls_def)
  have d: "started (newCalls st (onmessages dec ((env, m) # evs) st)) =
             map (\<lambda>i. ((buf # bufs) ! i, ?t + sum_list (map duration (take i (buf # bufs)))))
                 [0..<length (buf # bufs)]"
    if it: "inTime dec evs ?s"
  proof -
    have ctx': "outputAudioContextRef ?s \<noteq> None"
      using step(5) ctx by simp
    from run_in_time [OF r ctx' it] obtain ds where
      ds: "calls (onmessages dec evs ?s) = calls ?s @ ds"
          "started ds = backToBack (nextStartTimeRef ?s) bufs"
      by blast
    have "started (newCalls st (onmessages dec ((env, m) # evs) st)) = backToBack ?t (buf # bufs)"
      using ds step(1) b by (simp add: newCalls_def)
    then show ?thesis
      by (simp only: backToBack_sums)
  qed
  from a b s d show ?thesis by blast
qed

theorem enqueue_back_to_back_witness:
  "outputAudioContextRef activeApp \<noteq> None
   \<and> chunks (\<lambda>b. Inr clip)
        [(clockAt 5, chunkMessage ''AAAA'' False), (clockAt 5, chunkMessage ''BBBB'' False),
         (clockAt (5 + 1 / 10000), chunkMessage ''CCCC'' False)]
        [clip, clip, clip]
   \<and> inTime (\<lambda>b. Inr clip)
        [(clockAt 5, chunkMessage ''BBBB'' False), (clockAt (5 + 1 / 10000), chunkMessage ''CCCC'' False)]
        playingApp
   \<and> started (newCalls activeApp (onmessages (\<lambda>b. Inr clip)
        [(clockAt 5, chunkMessage ''AAAA'' False), (clockAt 5, chunkMessage ''BBBB'' False),
         (clockAt (5 + 1 / 10000), chunkMessage ''CCCC'' False)] activeApp))
      = [(clip, 5), (clip, 5 + 1 / 8000), (clip, 5 + 2 / 8000)]"
proof -
  let ?dec = "\<lambda>b::string. (Inr clip :: HandlerError + AudioBuffer)"
  let ?rest = "[(clockAt 5, chunkMessage ''BBBB'' False),
                (clockAt (5 + 1 / 10000), chunkMessage ''CCCC'' False)]"
  have c: "outputAudioContextRef activeApp \<noteq> None"
    by (simp add: activeApp_eval)
  have sc: "speechChunk ?dec (chunkMessage b False) = Some clip" if "b \<noteq> []" for b
    using that by (simp add: speechChunk_def base64Audio_def chunkMessage_def)
  have ni: "\<not> isInterrupted (chunkMessage b False)" for b
    by (simp add: isInterrupted_def chunkMessage_def)
  have ch: "chunks ?dec ((clockAt 5, chunkMessage ''AAAA'' False) # ?rest) (clip # [clip, clip])"
    by (simp add: sc ni)
  have p: "after (onmessage ?dec (clockAt 5) (chunkMessage ''AAAA'' False) activeApp) = playingApp"
    by (simp add: playingApp_def)
  have n1: "nextStartTimeRef playingApp = 40001 / 8000"
    by (simp add: playingApp_eval)
  have cp: "outputAudioContextRef playingApp \<noteq> None"
    by (simp add: playingApp_eval)
  have n2: "nextStartTimeRef (after (onmessage ?dec (clockAt 5) (chunkMessage ''BBBB'' False) playingApp))
            = 40002 / 8000"
    by (simp add: playingApp_eval model_defs)
  have it: "inTime ?dec ?rest playingApp"
    by (simp add: n1 n2) (simp add: clockAt_def)
  have d: "duration clip = 1 / 8000" by (simp add: clip_def)
  have u: "[0..<3] = [0, 1, 2]" by (simp add: upt_rec)
  from enqueue_back_to_back [OF c ch] it p
  show ?thesis
    using c ch by (simp add: d u activeApp_eval clockAt_def)
qed

subsection \<open>Interruption\<close>

lemma onmessage_interruptedMessage:
  "onmessage dec env interruptedMessage st =
     Inr (st\<lparr>calls := calls st @ map Stop (sourcesRef st), sourcesRef := [], nextStartTimeRef := 0\<rparr>)"
  by (simp add: onmessage_def handleTranscription_def handleAudioOutput_def
      handleInterruptions_def base64Audio_def interruptedMessage_def)

lemma scheduling_from_reset:
  assumes "nextStartTimeRef s = 0" and "sourcesRef s = []"
    and "nextStartTimeRef t = 0" and "sourcesRef t = []"
    and "(outputAudioContextRef s = None) = (outputAudioContextRef t = None)"
  shows "scheduling s (after (onmessage dec env m s)) = scheduling t (after (onmessage dec env m t))"
  using assms
  by (auto simp add: scheduling_def newCalls_def onmessage_def handleAudioOutput_def
      handleInterruptions_def transcription_keeps_playback set_add_def Let_def
      split: sum.splits option.splits)


text \<open>
  C2. Handling an interruption calls \<^verbatim>\<open>stop()\<close> on every handle of the set, once
  each and in the order of the set, leaves the set empty and \<open>nextStartTimeRef\<close> at 0,
  and does not throw. Handling it again changes nothing more (idempotent); on an empty
  set it makes no call and only resets \<open>nextStartTimeRef\<close>. Whatever message comes
  next schedules from the flushed state exactly as from a state whose scheduler refs
  have their initial values: an enqueued buffer starts at \<open>max 0 currentTime\<close> and is
  the only handle of the set.
\<close>

theorem interruption_flushes:
  "onmessage dec env interruptedMessage st = Inr (after (onmessage dec env interruptedMessage st))
   \<and> newCalls st (after (onmessage dec env interruptedMessage st)) = map Stop (sourcesRef st)
   \<and> sourcesRef (after (onmessage dec env interruptedMessage st)) = []
   \<and> nextStartTimeRef (after (onmessage dec env interruptedMessage st)) = 0
   \<and> after (onmessage dec env' interruptedMessage (after (onmessage dec env interruptedMessage st)))
       = after (onmessage dec env interruptedMessage st)
   \<and> (sourcesRef st = [] \<longrightarrow>
        after (onmessage dec env interruptedMessage st) = st\<lparr>nextStartTimeRef := 0\<rparr>)
   \<and> (isInterrupted m \<longrightarrow>
        handleInterruptions m st =
          st\<lparr>calls := calls st @ map Stop (sourcesRef st), sourcesRef := [], nextStartTimeRef := 0\<rparr>)
   \<and> (nextStartTimeRef s0 = 0 \<and> sourcesRef s0 = []
        \<and> (outputAudioContextRef s0 = None) = (outputAudioContextRef st = None) \<longrightarrow>
        scheduling (after (onmessage dec env interruptedMessage st))
          (after (onmessage dec env' m (after (onmessage dec env interruptedMessage st))))
        = scheduling s0 (after (onmessage dec env' m s0)))
   \<and> (speechChunk dec m = Some buf \<and> \<not> isInterrupted m \<and> outputAudioContextRef st \<noteq> None \<longrightarrow>
        scheduling (after (onmessage dec env interruptedMessage st))
          (after (onmessage dec env' m (after (onmessage dec env interruptedMessage st))))
        = ([(buf, max 0 (currentTime env'))], max 0 (currentTime env') + duration buf, [buf]))"
proof -
  let ?f = "st\<lparr>calls := calls st @ map Stop (sourcesRef st), sourcesRef := [], nextStartTimeRef := 0\<rparr>"
  have f: "after (onmessage dec env interruptedMessage st) = ?f"
    by (simp add: onmessage_interruptedMessage)
  have a: "onmessage dec env interruptedMessage st = Inr ?f"
    by (rule onmessage_interruptedMessage)
  have b: "newCalls st ?f = map Stop (sourcesRef st)"
    by (simp add: newCalls_def)
  have c: "after (onmessage dec env' interruptedMessage ?f) = ?f"
    by (simp add: onmessage_interruptedMessage)
  have d: "?f = st\<lparr>nextStartTimeRef := 0\<rparr>" if "sourcesRef st = []"
    using that by simp
  have e: "handleInterruptions m st = ?f" if "isInterrupted m"
    using that by (simp add: handleInterruptions_def isInterrupted_def)
  have g: "scheduling ?f (after (onmessage dec env' m ?f)) = scheduling s0 (after (onmessage dec env' m s0))"
    if "nextStartTimeRef s0 = 0 \<and> sourcesRef s0 = []
        \<and> (outputAudioContextRef s0 = None) = (outputAudioContextRef st = None)"
    using that by (intro scheduling_from_reset) simp_all
  have h: "scheduling ?f (after (onmessage dec env' m ?f))
           = ([(buf, max 0 (currentTime env'))], max 0 (currentTime env') + duration buf, [buf])"
    if "speechChunk dec m = Some buf \<and> \<not> isInterrupted m \<and> outputAudioContextRef st \<noteq> None"
  proof -
    from that have 1: "speechChunk dec m = Some buf" and 2: "\<not> isInterrupted m"
      and 3: "outputAudioContextRef ?f \<noteq> None"
      by simp_all
    note step = onmessage_chunk [OF 1 3 2, of env']
    show ?thesis
      by (simp add: scheduling_def newCalls_def step set_add_def)
  qed
  show ?thesis
    unfolding f using a b c d e g h by simp
qed

theorem interruption_flushes_witness:
  "sourcesRef playingApp = [\<lparr>node_id = 0, buffer = clip\<rparr>]
   \<and> newCalls playingApp (after (onmessage (\<lambda>b. Inr clip) (clockAt 6) interruptedMessage playingApp))
       = [Stop \<lparr>node_id = 0, buffer = clip\<rparr>]
   \<and> sourcesRef (after (onmessage (\<lambda>b. Inr clip) (clockAt 6) interruptedMessage playingApp)) = []
   \<and> nextStartTimeRef (after (onmessage (\<lambda>b. Inr clip) (clockAt 6) interruptedMessage playingApp)) = 0
   \<and> nextStartTimeRef activeApp = 0 \<and> sourcesRef activeApp = []
   \<and> (outputAudioContextRef activeApp = None) = (outputAudioContextRef playingApp = None)
   \<and> speechChunk (\<lambda>b. Inr clip) (chunkMessage ''BBBB'' False) = Some clip
   \<and> \<not> isInterrupted (chunkMessage ''BBBB'' False)
   \<and> scheduling activeApp
        (after (onmessage (\<lambda>b. Inr clip) (clockAt 7) (chunkMessage ''BBBB'' False) activeApp))
       = ([(clip, 7)], 7 + 1 / 8000, [clip])"
proof -
  let ?dec = "\<lambda>b::string. (Inr clip :: HandlerError + AudioBuffer)"
  have 1: "nextStartTimeRef activeApp = 0 \<and> sourcesRef activeApp = []
        \<and> (outputAudioContextRef activeApp = None) = (outputAudioContextRef playingApp = None)"
    by (simp add: activeApp_eval playingApp_eval)
  have 2: "speechChunk ?dec (chunkMessage ''BBBB'' False) = Some clip
        \<and> \<not> isInterrupted (chunkMessage ''BBBB'' False) \<and> outputAudioContextRef playingApp \<noteq> None"
    by (simp add: playingApp_eval model_defs)
  have 3: "sourcesRef playingApp = [\<lparr>node_id = 0, buffer = clip\<rparr>]"
    by (simp add: playingApp_eval)
  note t = interruption_flushes [of ?dec "clockAt 6" playingApp "clockAt 7"
      "chunkMessage ''BBBB'' False" activeApp clip]
  let ?f = "after (onmessage ?dec (clockAt 6) interruptedMessage playingApp)"
  let ?m = "chunkMessage ''BBBB'' False"
  have 4: "newCalls playingApp ?f = [Stop \<lparr>node_id = 0, buffer = clip\<rparr>]"
    using t 3 by simp
  have 5: "sourcesRef ?f = [] \<and> nextStartTimeRef ?f = 0"
    using t by blast
  have 6: "scheduling ?f (after (onmessage ?dec (clockAt 7) ?m ?f))
           = scheduling activeApp (after (onmessage ?dec (clockAt 7) ?m activeApp))"
    using t 1 by blast
  have 7: "scheduling ?f (after (onmessage ?dec (clockAt 7) ?m ?f))
           = ([(clip, max 0 (currentTime (clockAt 7)))],
              max 0 (currentTime (clockAt 7)) + duration clip, [clip])"
    using t 2 by blast
  have 8: "scheduling activeApp (after (onmessage ?dec (clockAt 7) ?m activeApp))
           = ([(clip, 7)], 7 + 1 / 8000, [clip])"
    using 6 7 by (simp add: clockAt_def clip_def)
  from 1 2 3 4 5 8 show ?thesis by blast
qed


text \<open>
  C9. An interruption signal changes the trace of calls, the handle set and
  \<open>nextStartTimeRef\<close> and nothing else: the transcript buffers, the transcript log
  and the session fields are as before. The same holds of the interruption step of
  any message.
\<close>

theorem interrupted_changes_playback_only:
  "after (onmessage dec env interruptedMessage st) =
     st\<lparr>calls := calls st @ map Stop (sourcesRef st), sourcesRef := [], nextStartTimeRef := 0\<rparr>
   \<and> transcriptionBufferRef (after (onmessage dec env interruptedMessage st)) = transcriptionBufferRef st
   \<and> transcriptions (after (onmessage dec env interruptedMessage st)) = transcriptions st
   \<and> session (after (onmessage dec env interruptedMessage st)) = session st
   \<and> transcriptionBufferRef (handleInterruptions m st) = transcriptionBufferRef st
   \<and> transcriptions (handleInterruptions m st) = transcriptions st
   \<and> session (handleInterruptions m st) = session st"
  by (simp add: onmessage_interruptedMessage interruptions_keep_transcripts)

theorem interrupted_changes_playback_only_witness:
  "transcriptionBufferRef (after (onmessage (\<lambda>b. Inr clip) (clockAt 6) interruptedMessage playingApp))
     = \<lparr>user = [], model = []\<rparr>
   \<and> transcriptions (after (onmessage (\<lambda>b. Inr clip) (clockAt 6) interruptedMessage playingApp)) = []
   \<and> isActive (session (after (onmessage (\<lambda>b. Inr clip) (clockAt 6) interruptedMessage playingApp)))
   \<and> sourcesRef (after (onmessage (\<lambda>b. Inr clip) (clockAt 6) interruptedMessage playingApp)) = []"
  using interrupted_changes_playback_only [of "\<lambda>b. Inr clip" "clockAt 6" playingApp interruptedMessage]
  by (simp add: playingApp_eval)

subsection \<open>Turns\<close>

lemma turn_complete_emits:
  assumes "serverContent m = Some sc" and "turnComplete sc"
  shows "transcriptions (handleTranscription env m st) =
           transcriptions st
           @ (let u = trim (case inputTranscription sc of
                              Some t \<Rightarrow> plusAssign (user (transcriptionBufferRef st)) (msg_text t)
                            | None \<Rightarrow> user (transcriptionBufferRef st))
              in if u \<noteq> [] then [\<lparr>role = User, text' = u, timestamp = dateNow1 env\<rparr>] else [])
           @ (let v = trim (case outputTranscription sc of
                              Some t \<Rightarrow> plusAssign (model (transcriptionBufferRef st)) (msg_text t)
                            | None \<Rightarrow> model (transcriptionBufferRef st))
              in if v \<noteq> [] then [\<lparr>role = Model, text' = v, timestamp = dateNow2 env + 1\<rparr>] else [])"
    and "transcriptionBufferRef (handleTranscription env m st) = \<lparr>user = [], model = []\<rparr>"
  using assms by (auto simp add: handleTranscription_def Let_def split: option.splits)





text \<open>
  C10. When one message carries a fragment for a role and the turn-complete flag, the
  entry of that role for this turn is made from the buffer with the fragment appended,
  and both buffers are empty afterwards: the fragment does not stay behind for the
  next turn.
\<close>

theorem fragment_in_same_turn:
  assumes sc: "serverContent m = Some sc" and tc: "turnComplete sc"
  shows "(\<forall>a. inputTranscription sc = Some \<lparr>msg_text = Some a\<rparr> \<longrightarrow>
            filter (\<lambda>e. role e = User) (emitted st (after (onmessage dec env m st))) =
              (if trim (user (transcriptionBufferRef st) @ a) \<noteq> []
               then [\<lparr>role = User, text' = trim (user (transcriptionBufferRef st) @ a),
                      timestamp = dateNow1 env\<rparr>]
               else []))
       \<and> (\<forall>a. outputTranscription sc = Some \<lparr>msg_text = Some a\<rparr> \<longrightarrow>
            filter (\<lambda>e. role e = Model) (emitted st (after (onmessage dec env m st))) =
              (if trim (model (transcriptionBufferRef st) @ a) \<noteq> []
               then [\<lparr>role = Model, text' = trim (model (transcriptionBufferRef st) @ a),
                      timestamp = dateNow2 env + 1\<rparr>]
               else []))
       \<and> transcriptionBufferRef (after (onmessage dec env m st)) = \<lparr>user = [], model = []\<rparr>"
proof -
  note t = turn_complete_emits [OF sc tc, of env st]
  show ?thesis
    using t by (simp add: onmessage_transcripts emitted_def plusAssign_def Let_def)
qed

theorem fragment_in_same_turn_witness:
  "filter (\<lambda>e. role e = User)
     (emitted heardApp (after (onmessage (\<lambda>b. Inr clip) (clockAt 5) lastFragmentMessage heardApp)))
     = [\<lparr>role = User, text' = ''Hello there'', timestamp = 1000\<rparr>]
   \<and> filter (\<lambda>e. role e = Model)
     (emitted heardApp (after (onmessage (\<lambda>b. Inr clip) (clockAt 5) lastFragmentMessage heardApp)))
     = [\<lparr>role = Model, text' = ''Hola mundo'', timestamp = 1001\<rparr>]
   \<and> transcriptionBufferRef (after (onmessage (\<lambda>b. Inr clip) (clockAt 5) lastFragmentMessage heardApp))
       = \<lparr>user = [], model = []\<rparr>"
proof -
  have b: "transcriptionBufferRef heardApp = \<lparr>user = '' Hello '', model = ''Hola ''\<rparr>"
    by (simp add: heardApp_def)
  from fragment_in_same_turn [of lastFragmentMessage
      "\<lparr>inputTranscription = Some \<lparr>msg_text = Some ''there''\<rparr>,
        outputTranscription = Some \<lparr>msg_text = Some ''mundo''\<rparr>,
        turnComplete = True, modelTurn = None, interrupted = False\<rparr>" heardApp "\<lambda>b. Inr clip" "clockAt 5"]
  show ?thesis
    by (simp add: lastFragmentMessage_def b trim_eval) (simp add: clockAt_def)
qed


subsection \<open>Chunks that do not decode, and empty buffers\<close>

lemma onmessage_rejected:
  assumes "base64Audio m = Inr (Some b)" and "b \<noteq> []" and "outputAudioContextRef st \<noteq> None"
    and "dec b = Inl e"
  shows "onmessage dec env m st =
           Inl (e, (handleTranscription env m st)
                     \<lparr>nextStartTimeRef := max (nextStartTimeRef st) (currentTime env)\<rparr>)"
  using assms
  by (simp add: onmessage_def handleAudioOutput_def transcription_keeps_playback)

lemma onmessage_keeps_devices:
  "micStream (after (onmessage dec env m st)) = micStream st
   \<and> inputAudioContextRef (after (onmessage dec env m st)) = inputAudioContextRef st
   \<and> outputAudioContextRef (after (onmessage dec env m st)) = outputAudioContextRef st
   \<and> session (after (onmessage dec env m st)) = session st"
  by (simp add: after_onmessage handleAudioOutput_def handleInterruptions_def
      transcription_keeps_playback Let_def split: sum.splits option.splits)

lemma withoutChunk_transcription:
  "handleTranscription env (withoutChunk m) st = handleTranscription env m st"
  by (cases "serverContent m") (simp_all add: handleTranscription_def withoutChunk_def)

lemma withoutChunk_audio: "base64Audio (withoutChunk m) = Inr None"
  by (cases "serverContent m") (simp_all add: base64Audio_def withoutChunk_def)

lemma withoutChunk_interruptions:
  "handleInterruptions (withoutChunk m) st = handleInterruptions m st"
  by (cases "serverContent m") (simp_all add: handleInterruptions_def withoutChunk_def)

lemma withoutChunk_after:
  "after (onmessage dec env (withoutChunk m) st) =
     handleInterruptions m (handleTranscription env m st)"
  by (simp add: onmessage_def handleAudioOutput_def withoutChunk_transcription withoutChunk_audio
      withoutChunk_interruptions)

lemma onmessage_rejected_state:
  assumes a: "base64Audio m = Inr (Some b)" and nb: "b \<noteq> []"
    and ctx: "outputAudioContextRef st \<noteq> None" and d: "dec b = Inl e"
  shows "onmessage dec env m st =
           Inl (e, (handleTranscription env m st)
                     \<lparr>nextStartTimeRef := max (nextStartTimeRef st) (currentTime env)\<rparr>)
        \<and> after (onmessage dec env m st) =
            (handleTranscription env m st)
              \<lparr>nextStartTimeRef := max (nextStartTimeRef st) (currentTime env)\<rparr>
        \<and> session (after (onmessage dec env m st)) = session st
        \<and> micStream (after (onmessage dec env m st)) = micStream st
        \<and> inputAudioContextRef (after (onmessage dec env m st)) = inputAudioContextRef st
        \<and> outputAudioContextRef (after (onmessage dec env m st)) = outputAudioContextRef st
        \<and> sourcesRef (after (onmessage dec env m st)) = sourcesRef st
        \<and> calls (after (onmessage dec env m st)) = calls st
        \<and> created (after (onmessage dec env m st)) = created st
        \<and> nextStartTimeRef (after (onmessage dec env m st)) = max (nextStartTimeRef st) (currentTime env)
        \<and> (\<not> isInterrupted m \<longrightarrow>
             after (onmessage dec env m st) =
               (after (onmessage dec env (withoutChunk m) st))
                 \<lparr>nextStartTimeRef := max (nextStartTimeRef st) (currentTime env)\<rparr>)
        \<and> (\<not> isInterrupted m \<and> currentTime env \<le> nextStartTimeRef st \<longrightarrow>
             after (onmessage dec env m st) = after (onmessage dec env (withoutChunk m) st))
        \<and> (speechChunk dec m' = Some buf' \<and> \<not> isInterrupted m' \<longrightarrow>
             newCalls (after (onmessage dec env m st))
               (after (onmessage dec env' m' (after (onmessage dec env m st)))) =
               [Start \<lparr>node_id = created st, buffer = buf'\<rparr>
                  (max (max (nextStartTimeRef st) (currentTime env)) (currentTime env'))])"
proof -
  let ?s = "(handleTranscription env m st)
              \<lparr>nextStartTimeRef := max (nextStartTimeRef st) (currentTime env)\<rparr>"
  have r: "onmessage dec env m st = Inl (e, ?s)"
    by (rule onmessage_rejected [of m b st dec e env, OF a nb ctx d])
  have aft: "after (onmessage dec env m st) = ?s"
    by (simp add: r)
  have ctx': "outputAudioContextRef ?s \<noteq> None"
    using ctx by (simp add: transcription_keeps_playback)
  have w: "after (onmessage dec env m st) =
             (after (onmessage dec env (withoutChunk m) st))
               \<lparr>nextStartTimeRef := max (nextStartTimeRef st) (currentTime env)\<rparr>"
    if "\<not> isInterrupted m"
    using that
    by (simp add: aft withoutChunk_after handleInterruptions_def isInterrupted_def)
  have w': "after (onmessage dec env m st) = after (onmessage dec env (withoutChunk m) st)"
    if "\<not> isInterrupted m \<and> currentTime env \<le> nextStartTimeRef st"
  proof -
    from that have m: "max (nextStartTimeRef st) (currentTime env) = nextStartTimeRef st"
      by (simp add: max_def)
    have "nextStartTimeRef (after (onmessage dec env (withoutChunk m) st)) = nextStartTimeRef st"
      using that
      by (simp add: withoutChunk_after handleInterruptions_def isInterrupted_def
          transcription_keeps_playback)
    then show ?thesis
      using that w m by simp
  qed
  have nx: "newCalls (after (onmessage dec env m st))
             (after (onmessage dec env' m' (after (onmessage dec env m st)))) =
               [Start \<lparr>node_id = created st, buffer = buf'\<rparr>
                  (max (max (nextStartTimeRef st) (currentTime env)) (currentTime env'))]"
    if "speechChunk dec m' = Some buf' \<and> \<not> isInterrupted m'"
  proof -
    from that have c: "speechChunk dec m' = Some buf'" and i: "\<not> isInterrupted m'"
      by simp_all
    show ?thesis
      unfolding aft
      using onmessage_chunk(1) [OF c ctx' i, of env']
      by (simp add: newCalls_def transcription_keeps_playback)
  qed
  have f: "session (after (onmessage dec env m st)) = session st
      \<and> micStream (after (onmessage dec env m st)) = micStream st
      \<and> inputAudioContextRef (after (onmessage dec env m st)) = inputAudioContextRef st
      \<and> outputAudioContextRef (after (onmessage dec env m st)) = outputAudioContextRef st
      \<and> sourcesRef (after (onmessage dec env m st)) = sourcesRef st
      \<and> calls (after (onmessage dec env m st)) = calls st
      \<and> created (after (onmessage dec env m st)) = created st
      \<and> nextStartTimeRef (after (onmessage dec env m st)) = max (nextStartTimeRef st) (currentTime env)"
    unfolding aft by (simp add: transcription_keeps_playback)
  from r aft f w w' nx show ?thesis
    by blast
qed





section \<open>The codec\<close>

lemma cat_le_bytes: "word_cat (ucast (drop_bit 8 w) :: 8 word) (ucast w :: 8 word) = (w :: 16 word)"
  by (rule bit_word_eqI) (auto simp add: bit_simps)

lemma int16s_le_bytes: "int16s (le_bytes w @ rest) = w # int16s rest"
  by (simp add: le_bytes_def cat_le_bytes)

lemma round_clamp_bounds: "- 32767 \<le> round (clamp x * 32767) \<and> round (clamp x * 32767) \<le> 32767"
proof -
  have "- 1 \<le> clamp x" and "clamp x \<le> 1"
    by (simp_all add: clamp_def)
  then have l: "(- 32767 :: real) \<le> clamp x * 32767" and u: "clamp x * 32767 \<le> (32767 :: real)"
    by simp_all
  have "round (- 32767 :: real) \<le> round (clamp x * 32767)"
    by (rule round_mono [OF l])
  moreover have "round (clamp x * 32767) \<le> round (32767 :: real)"
    by (rule round_mono [OF u])
  ultimately show ?thesis
    by simp
qed

lemma sint_sample: "sint (word_of_int (round (clamp x * 32767)) :: 16 word) = round (clamp x * 32767)"
proof -
  have "signed_take_bit 15 (round (clamp x * 32767)) = round (clamp x * 32767)"
    using round_clamp_bounds [of x] by (intro signed_take_bit_int_eq_self) simp_all
  then show ?thesis
    by (simp add: sint_sbintrunc')
qed

lemma length_int16s: "length (int16s p) = length p div 2"
  by (induction p rule: int16s.induct) simp_all

lemma int16s_nth:
  "i < length p div 2 \<Longrightarrow> int16s p ! i = word_cat (p ! (2 * i + 1)) (p ! (2 * i))"
proof (induction p arbitrary: i rule: int16s.induct)
  case (1 lo hi rest)
  then show ?case by (cases i) simp_all
qed simp_all


lemma decodeAudioData_eval:
  "decodeAudioData [0, 128, 255, 127] 24000 1 = Inr twoSamples"
  "decodeAudioData [7] 24000 1 = Inl DecodeError"
  by (simp_all add: decodeAudioData_def twoSamples_def word_cat_eq)

text \<open>
  C7, as amended. The decoder fails exactly on an empty payload and on one of odd
  length, and then with \<open>DecodeError\<close>; otherwise the buffer has half as many samples
  as the payload has bytes, sample \<open>i\<close> is the 16-bit signed value of bytes \<open>2i\<close>
  (low) and \<open>2i + 1\<close> (high) divided by 32768, and the duration is the number of
  samples over the sample rate. In \<^verbatim>\<open>onmessage\<close> a rejected chunk ends the handler
  with the error, and the state it leaves is the state after the transcript part of the
  message with \<open>nextStartTimeRef\<close> set to \<open>max nextStartTimeRef currentTime\<close>: the
  session fields, the devices, the handle set and the trace of calls are as before. For
  a message without the interruption flag this is the state that the same message
  without its audio leaves, but for \<open>nextStartTimeRef\<close>, and the very same state when
  the clock has not passed \<open>nextStartTimeRef\<close>. The interruption step is not reached.
  The next chunk that decodes is started as usual.
\<close>

theorem chunk_decoder:
  "((\<exists>e. decodeAudioData payload rate n = Inl e) = (payload = [] \<or> odd (length payload)))
   \<and> (decodeAudioData payload rate n = Inl e \<longrightarrow> e = DecodeError)
   \<and> (decodeAudioData payload rate n = Inr buf \<longrightarrow>
        length (samples buf) = length payload div 2
        \<and> samples buf = map (\<lambda>w. real_of_int (sint w) / 32768) (int16s payload)
        \<and> (\<forall>i<length payload div 2.
              samples buf ! i =
                real_of_int (sint (word_cat (payload ! (2 * i + 1)) (payload ! (2 * i)) :: 16 word))
                  / 32768)
        \<and> sampleRate buf = rate
        \<and> duration buf = real (length (samples buf)) / real rate)
   \<and> (base64Audio m = Inr (Some b) \<and> b \<noteq> [] \<and> outputAudioContextRef st \<noteq> None
        \<and> decodeAudioData (decode b) 24000 1 = Inl e \<longrightarrow>
        onmessage (\<lambda>b. decodeAudioData (decode b) 24000 1) env m st =
          Inl (DecodeError,
               (handleTranscription env m st)
                 \<lparr>nextStartTimeRef := max (nextStartTimeRef st) (currentTime env)\<rparr>)
        \<and> after (onmessage (\<lambda>b. decodeAudioData (decode b) 24000 1) env m st) =
            (handleTranscription env m st)
              \<lparr>nextStartTimeRef := max (nextStartTimeRef st) (currentTime env)\<rparr>
        \<and> session (after (onmessage (\<lambda>b. decodeAudioData (decode b) 24000 1) env m st)) = session st
        \<and> micStream (after (onmessage (\<lambda>b. decodeAudioData (decode b) 24000 1) env m st)) = micStream st
        \<and> inputAudioContextRef (after (onmessage (\<lambda>b. decodeAudioData (decode b) 24000 1) env m st))
            = inputAudioContextRef st
        \<and> outputAudioContextRef (after (onmessage (\<lambda>b. decodeAudioData (decode b) 24000 1) env m st))
            = outputAudioContextRef st
        \<and> sourcesRef (after (onmessage (\<lambda>b. decodeAudioData (decode b) 24000 1) env m st)) = sourcesRef st
        \<and> calls (after (onmessage (\<lambda>b. decodeAudioData (decode b) 24000 1) env m st)) = calls st
        \<and> created (after (onmessage (\<lambda>b. decodeAudioData (decode b) 24000 1) env m st)) = created st
        \<and> nextStartTimeRef (after (onmessage (\<lambda>b. decodeAudioData (decode b) 24000 1) env m st))
            = max (nextStartTimeRef st) (currentTime env)
        \<and> (\<not> isInterrupted m \<longrightarrow>
             after (onmessage (\<lambda>b. decodeAudioData (decode b) 24000 1) env m st) =
               (after (onmessage (\<lambda>b. decodeAudioData (decode b) 24000 1) env (withoutChunk m) st))
                 \<lparr>nextStartTimeRef := max (nextStartTimeRef st) (currentTime env)\<rparr>)
        \<and> (\<not> isInterrupted m \<and> currentTime env \<le> nextStartTimeRef st \<longrightarrow>
             after (onmessage (\<lambda>b. decodeAudioData (decode b) 24000 1) env m st) =
               after (onmessage (\<lambda>b. decodeAudioData (decode b) 24000 1) env (withoutChunk m) st))
        \<and> (speechChunk (\<lambda>b. decodeAudioData (decode b) 24000 1) m' = Some buf'
              \<and> \<not> isInterrupted m' \<longrightarrow>
             newCalls (after (onmessage (\<lambda>b. decodeAudioData (decode b) 24000 1) env m st))
               (after (onmessage (\<lambda>b. decodeAudioData (decode b) 24000 1) env' m'
                  (after (onmessage (\<lambda>b. decodeAudioData (decode b) 24000 1) env m st)))) =
               [Start \<lparr>node_id = created st, buffer = buf'\<rparr>
                  (max (max (nextStartTimeRef st) (currentTime env)) (currentTime env'))]))"
proof -
  let ?dec = "\<lambda>b. decodeAudioData (decode b) 24000 1"
  let ?s = "(handleTranscription env m st)
              \<lparr>nextStartTimeRef := max (nextStartTimeRef st) (currentTime env)\<rparr>"
  have 1: "(\<exists>e. decodeAudioData payload rate n = Inl e) = (payload = [] \<or> odd (length payload))"
    by (auto simp add: decodeAudioData_def odd_iff_mod_2_eq_one)
  have 2: "e = DecodeError" if "decodeAudioData payload rate n = Inl e" for e
    using that by (simp add: decodeAudioData_def split: if_splits)
  have 3: "length (samples buf) = length payload div 2
        \<and> samples buf = map (\<lambda>w. real_of_int (sint w) / 32768) (int16s payload)
        \<and> (\<forall>i<length payload div 2.
              samples buf ! i =
                real_of_int (sint (word_cat (payload ! (2 * i + 1)) (payload ! (2 * i)) :: 16 word))
                  / 32768)
        \<and> sampleRate buf = rate
        \<and> duration buf = real (length (samples buf)) / real rate"
    if "decodeAudioData payload rate n = Inr buf"
  proof -
    from that have b: "buf = \<lparr>samples = map (\<lambda>w. real_of_int (sint w) / 32768) (int16s payload),
        sampleRate = rate, duration = real (length payload div 2) / real rate\<rparr>"
      by (simp add: decodeAudioData_def split: if_splits)
    show ?thesis
      by (simp add: b length_int16s int16s_nth)
  qed
  have 4: "onmessage ?dec env m st = Inl (DecodeError, ?s)
        \<and> after (onmessage ?dec env m st) = ?s
        \<and> session (after (onmessage ?dec env m st)) = session st
        \<and> micStream (after (onmessage ?dec env m st)) = micStream st
        \<and> inputAudioContextRef (after (onmessage ?dec env m st)) = inputAudioContextRef st
        \<and> outputAudioContextRef (after (onmessage ?dec env m st)) = outputAudioContextRef st
        \<and> sourcesRef (after (onmessage ?dec env m st)) = sourcesRef st
        \<and> calls (after (onmessage ?dec env m st)) = calls st
        \<and> created (after (onmessage ?dec env m st)) = created st
        \<and> nextStartTimeRef (after (onmessage ?dec env m st)) = max (nextStartTimeRef st) (currentTime env)
        \<and> (\<not> isInterrupted m \<longrightarrow>
             after (onmessage ?dec env m st) =
               (after (onmessage ?dec env (withoutChunk m) st))
                 \<lparr>nextStartTimeRef := max (nextStartTimeRef st) (currentTime env)\<rparr>)
        \<and> (\<not> isInterrupted m \<and> currentTime env \<le> nextStartTimeRef st \<longrightarrow>
             after (onmessage ?dec env m st) = after (onmessage ?dec env (withoutChunk m) st))
        \<and> (speechChunk ?dec m' = Some buf' \<and> \<not> isInterrupted m' \<longrightarrow>
             newCalls (after (onmessage ?dec env m st))
               (after (onmessage ?dec env' m' (after (onmessage ?dec env m st)))) =
               [Start \<lparr>node_id = created st, buffer = buf'\<rparr>
                  (max (max (nextStartTimeRef st) (currentTime env)) (currentTime env'))])"
    if h: "base64Audio m = Inr (Some b) \<and> b \<noteq> [] \<and> outputAudioContextRef st \<noteq> None
        \<and> decodeAudioData (decode b) 24000 1 = Inl e"
  proof -
    from h have e: "e = DecodeError"
      by (simp add: decodeAudioData_def split: if_splits)
    from h have d: "?dec b = Inl DecodeError"
      by (simp only: e)
    from h have a: "base64Audio m = Inr (Some b)" and nb: "b \<noteq> []"
      and ctx: "outputAudioContextRef st \<noteq> None"
      by simp_all
    show ?thesis
      by (rule onmessage_rejected_state [where dec = ?dec and e = DecodeError, OF a nb ctx d])
  qed
  show ?thesis
    using 1 2 3 4 by blast
qed


theorem chunk_decoder_witness:
  "decodeAudioData [0, 128, 255, 127] 24000 1 = Inr twoSamples
   \<and> length (samples twoSamples) = 2
   \<and> samples twoSamples ! 1 = 32767 / 32768
   \<and> duration twoSamples = 2 / 24000
   \<and> (\<exists>e. decodeAudioData [7] 24000 1 = Inl e)
   \<and> base64Audio (chunkMessage ''AAAA'' False) = Inr (Some ''AAAA'')
   \<and> outputAudioContextRef playingApp \<noteq> None
   \<and> \<not> isInterrupted (chunkMessage ''AAAA'' False)
   \<and> currentTime (clockAt 5) \<le> nextStartTimeRef playingApp
   \<and> after (onmessage (\<lambda>b. decodeAudioData [7] 24000 1) (clockAt 5)
               (chunkMessage ''AAAA'' False) playingApp)
       = after (onmessage (\<lambda>b. decodeAudioData [7] 24000 1) (clockAt 5)
               (withoutChunk (chunkMessage ''AAAA'' False)) playingApp)
   \<and> sourcesRef (after (onmessage (\<lambda>b. decodeAudioData [7] 24000 1) (clockAt 5)
               (chunkMessage ''AAAA'' False) playingApp)) = [\<lparr>node_id = 0, buffer = clip\<rparr>]
   \<and> nextStartTimeRef (after (onmessage (\<lambda>b. decodeAudioData [7] 24000 1) (clockAt 5)
               (chunkMessage ''AAAA'' False) playingApp)) = 40001 / 8000"
proof -
  let ?dec = "\<lambda>b::string. decodeAudioData [7] 24000 1"
  let ?m = "chunkMessage ''AAAA'' False"
  have 1: "decodeAudioData [0, 128, 255, 127] 24000 1 = Inr twoSamples"
    by (rule decodeAudioData_eval)
  have 2: "decodeAudioData [7] 24000 1 = Inl DecodeError"
    by (rule decodeAudioData_eval)
  have 3: "base64Audio ?m = Inr (Some ''AAAA'') \<and> ''AAAA'' \<noteq> []"
    by (simp add: base64Audio_def chunkMessage_def)
  have 4: "outputAudioContextRef playingApp \<noteq> None"
    by (simp add: playingApp_eval)
  have 5: "\<not> isInterrupted ?m"
    by (simp add: isInterrupted_def chunkMessage_def)
  have 6: "currentTime (clockAt 5) \<le> nextStartTimeRef playingApp"
    by (simp add: playingApp_eval clockAt_def)
  note t = chunk_decoder [where payload = "[0, 128, 255, 127]" and rate = 24000 and n = 1
      and e = DecodeError and buf = twoSamples and m = ?m and b = "''AAAA''" and st = playingApp
      and decode = "\<lambda>b. [7]" and env = "clockAt 5"]
  have 7: "length (samples twoSamples) = length [0, 128, 255, 127 :: byte] div 2
        \<and> duration twoSamples = real (length (samples twoSamples)) / real 24000"
    using t 1 by blast
  have 8: "samples twoSamples ! 1 = 32767 / 32768"
    by (simp add: twoSamples_def)
  have 9: "\<exists>e. decodeAudioData [7] 24000 1 = Inl e"
    using chunk_decoder [where payload = "[7]" and rate = 24000 and n = 1] by simp
  have 10: "after (onmessage ?dec (clockAt 5) ?m playingApp)
       = after (onmessage ?dec (clockAt 5) (withoutChunk ?m) playingApp)
       \<and> sourcesRef (after (onmessage ?dec (clockAt 5) ?m playingApp)) = sourcesRef playingApp
       \<and> nextStartTimeRef (after (onmessage ?dec (clockAt 5) ?m playingApp))
           = max (nextStartTimeRef playingApp) (currentTime (clockAt 5))"
    using t 2 3 4 5 6 by blast
  have 11: "length (samples twoSamples) = 2 \<and> duration twoSamples = 2 / 24000"
    using 7 by simp
  have s: "sourcesRef playingApp = [\<lparr>node_id = 0, buffer = clip\<rparr>]"
    and n: "max (nextStartTimeRef playingApp) (currentTime (clockAt 5)) = 40001 / 8000"
    by (simp_all add: playingApp_eval clockAt_def)
  from 10 have "sourcesRef (after (onmessage ?dec (clockAt 5) ?m playingApp)) = sourcesRef playingApp"
    by blast
  then have 12: "sourcesRef (after (onmessage ?dec (clockAt 5) ?m playingApp))
         = [\<lparr>node_id = 0, buffer = clip\<rparr>]"
    using s by (rule trans)
  from 10 have "nextStartTimeRef (after (onmessage ?dec (clockAt 5) ?m playingApp))
           = max (nextStartTimeRef playingApp) (currentTime (clockAt 5))"
    by blast
  then have 13: "nextStartTimeRef (after (onmessage ?dec (clockAt 5) ?m playingApp)) = 40001 / 8000"
    using n by (rule trans)
  from 1 11 8 9 3 4 5 6 10 12 13 show ?thesis by blast
qed

text \<open>
  C7 as stated fails: a rejected chunk in a message that also carries the interruption
  flag takes the interruption with it. The handle stays in the set and is not stopped,
  where the same message without its audio stops it and empties the set.
\<close>

theorem chunk_rejection_counterexample:
  "decodeAudioData [7] 24000 1 = Inl DecodeError
   \<and> withoutChunk (chunkMessage ''AAAA'' True) = interruptedMessage
   \<and> sourcesRef (after (onmessage (\<lambda>b. decodeAudioData [7] 24000 1) (clockAt 6)
        (chunkMessage ''AAAA'' True) playingApp)) = [\<lparr>node_id = 0, buffer = clip\<rparr>]
   \<and> newCalls playingApp (after (onmessage (\<lambda>b. decodeAudioData [7] 24000 1) (clockAt 6)
        (chunkMessage ''AAAA'' True) playingApp)) = []
   \<and> sourcesRef (after (onmessage (\<lambda>b. decodeAudioData [7] 24000 1) (clockAt 6)
        interruptedMessage playingApp)) = []
   \<and> newCalls playingApp (after (onmessage (\<lambda>b. decodeAudioData [7] 24000 1) (clockAt 6)
        interruptedMessage playingApp)) = [Stop \<lparr>node_id = 0, buffer = clip\<rparr>]"
proof -
  have 1: "decodeAudioData [7] 24000 1 = Inl DecodeError"
    by (rule decodeAudioData_eval)
  have 2: "withoutChunk (chunkMessage ''AAAA'' True) = interruptedMessage"
    by (simp add: withoutChunk_def chunkMessage_def interruptedMessage_def)
  have 3: "after (onmessage (\<lambda>b. decodeAudioData [7] 24000 1) (clockAt 6)
        (chunkMessage ''AAAA'' True) playingApp) = playingApp\<lparr>nextStartTimeRef := 6\<rparr>"
    by (simp only: 1) (simp add: playingApp_eval model_defs)
  have 4: "after (onmessage (\<lambda>b. decodeAudioData [7] 24000 1) (clockAt 6)
        interruptedMessage playingApp) =
        playingApp\<lparr>calls := calls playingApp @ [Stop \<lparr>node_id = 0, buffer = clip\<rparr>],
          sourcesRef := [], nextStartTimeRef := 0\<rparr>"
    by (simp add: onmessage_interruptedMessage playingApp_eval)
  have 5: "sourcesRef playingApp = [\<lparr>node_id = 0, buffer = clip\<rparr>]"
    by (simp add: playingApp_eval)
  show ?thesis
    unfolding 3 4 using 1 2 5 by (simp add: newCalls_def)
qed

text \<open>
  C8. The encoder is a total function of its input alone; a frame of \<open>N\<close> samples has
  \<open>2N\<close> bytes, and read back as 16-bit signed little-endian values it is
  \<open>round (clamp x * 32767)\<close> for each input sample \<open>x\<close>, each of which fits 16 bits.
\<close>

theorem frame_encoder:
  "length (createBlob inputData) = 2 * length inputData
   \<and> map sint (int16s (createBlob inputData)) = map (\<lambda>x. round (clamp x * 32767)) inputData
   \<and> list_all (\<lambda>v. - 32768 \<le> v \<and> v < 32768) (map (\<lambda>x. round (clamp x * 32767)) inputData)"
proof (induction inputData)
  case Nil
  show ?case by (simp add: createBlob_def)
next
  case (Cons x xs)
  have c: "createBlob (x # xs) = le_bytes (word_of_int (round (clamp x * 32767))) @ createBlob xs"
    by (simp add: createBlob_def)
  have l: "length (le_bytes w) = 2" for w
    by (simp add: le_bytes_def)
  show ?case
    using Cons.IH round_clamp_bounds [of x]
    by (simp add: c l int16s_le_bytes sint_sample)
qed

theorem frame_encoder_witness:
  "createBlob [1 / 2, - 2, 1] = [0, 64, 1, 128, 255, 127]
   \<and> map sint (int16s (createBlob [1 / 2, - 2, 1])) = [16384, - 32767, 32767]"
proof -
  have r: "round (32767 / 2 :: real) = 16384"
    by (simp add: round_def)
  have c: "createBlob [1 / 2, - 2, 1] = [0, 64, 1, 128, 255, 127]"
    by (simp add: createBlob_def le_bytes_def clamp_def r)
  have "map sint (int16s (createBlob [1 / 2, - 2, 1])) = [16384, - 32767, 32767]"
    using frame_encoder [of "[1 / 2, - 2, 1]"] by (simp add: clamp_def r)
  with c show ?thesis by simp
qed


section \<open>Shutdown and errors\<close>

text \<open>
  The stop action runs \<^verbatim>\<open>cleanupAudio\<close>: whatever the state, the stream and both
  contexts are given up, every handle is stopped, the set is empty and
  \<open>nextStartTimeRef\<close> is 0.
\<close>

lemma cleanupAudio_releases:
  "micStream (cleanupAudio st) = None
   \<and> inputAudioContextRef (cleanupAudio st) = None
   \<and> outputAudioContextRef (cleanupAudio st) = None
   \<and> sourcesRef (cleanupAudio st) = []
   \<and> nextStartTimeRef (cleanupAudio st) = 0
   \<and> session (cleanupAudio st) = session st"
  by (simp add: cleanupAudio_def Let_def split: option.splits)

lemma cleanupAudio_calls:
  "calls (cleanupAudio st) =
     calls st
     @ (case inputAudioContextRef st of Some c \<Rightarrow> [Close c] | None \<Rightarrow> [])
     @ (case outputAudioContextRef st of Some c \<Rightarrow> [Close c] | None \<Rightarrow> [])
     @ (case micStream st of Some stream \<Rightarrow> map TrackStop (getTracks stream) | None \<Rightarrow> [])
     @ map Stop (sourcesRef st)"
  by (simp add: cleanupAudio_def Let_def split: option.splits)

lemma toggleSession_stop:
  assumes "isActive (session st)"
  shows "\<not> holdsDevice (toggleSession env st)
       \<and> sourcesRef (toggleSession env st) = []
       \<and> nextStartTimeRef (toggleSession env st) = 0
       \<and> \<not> isActive (session (toggleSession env st))
       \<and> \<not> isConnecting (session (toggleSession env st))
       \<and> set (map Stop (sourcesRef st)) \<subseteq> set (calls (toggleSession env st))"
  using assms
  by (auto simp add: toggleSession_def holdsDevice_def cleanupAudio_releases cleanupAudio_calls Let_def)

text \<open>The two callbacks change the session fields and the console, nothing else.\<close>

lemma onclose_keeps:
  "micStream (onclose st) = micStream st
   \<and> inputAudioContextRef (onclose st) = inputAudioContextRef st
   \<and> outputAudioContextRef (onclose st) = outputAudioContextRef st
   \<and> sourcesRef (onclose st) = sourcesRef st
   \<and> nextStartTimeRef (onclose st) = nextStartTimeRef st"
  by (simp add: onclose_def)

lemma onerror_keeps:
  "micStream (onerror st) = micStream st
   \<and> inputAudioContextRef (onerror st) = inputAudioContextRef st
   \<and> outputAudioContextRef (onerror st) = outputAudioContextRef st
   \<and> sourcesRef (onerror st) = sourcesRef st
   \<and> nextStartTimeRef (onerror st) = nextStartTimeRef st"
  by (simp add: onerror_def)

text \<open>
  C4. Shutdown is to release the microphone and both contexts and to flush playback,
  whether the user stops the session or the network reports it closed. The stop
  action does so; \<^verbatim>\<open>onclose\<close> does not call \<^verbatim>\<open>cleanupAudio\<close>. On a session
  with one buffer scheduled, the closed signal leaves the stream, both contexts, the
  handle and \<open>nextStartTimeRef\<close> as they were and only logs and clears the flags,
  where the stop action closes, stops and releases all of them.
\<close>

theorem onclose_leaves_devices_held:
  "isActive (session playingApp)
   \<and> \<not> isActive (session (onclose playingApp))
   \<and> micStream (onclose playingApp) = Some \<lparr>getTracks = [0]\<rparr>
   \<and> inputAudioContextRef (onclose playingApp) = Some (AudioContext 16000)
   \<and> outputAudioContextRef (onclose playingApp) = Some (AudioContext 24000)
   \<and> sourcesRef (onclose playingApp) = [\<lparr>node_id = 0, buffer = clip\<rparr>]
   \<and> nextStartTimeRef (onclose playingApp) = 40001 / 8000
   \<and> newCalls playingApp (onclose playingApp) = [ConsoleLog ''Session closed'']
   \<and> holdsDevice (onclose playingApp)
   \<and> newCalls playingApp (toggleSession okStart playingApp) =
       [SessionClose, Close (AudioContext 16000), Close (AudioContext 24000), TrackStop 0,
        Stop \<lparr>node_id = 0, buffer = clip\<rparr>]
   \<and> \<not> holdsDevice (toggleSession okStart playingApp)"
  by (simp add: playingApp_eval onclose_def toggleSession_def cleanupAudio_def holdsDevice_def
      newCalls_def)

text \<open>
  C5. An error is to release what has been acquired and to record a message.
  \<^verbatim>\<open>onerror\<close> records its message and, like \<^verbatim>\<open>onclose\<close>, releases nothing: on
  a session with one buffer scheduled the stream, both contexts and the handle stay.
  A refused microphone leaves nothing held and records the browser's message; a
  failure after the microphone was granted records the default message and keeps
  the stream.
\<close>

theorem onerror_leaves_devices_held:
  "isActive (session playingApp)
   \<and> session (onerror playingApp) =
       \<lparr>isActive = False, isConnecting = False, mode = AUTO,
        error = Some ''Connection error occurred.''\<rparr>
   \<and> micStream (onerror playingApp) = Some \<lparr>getTracks = [0]\<rparr>
   \<and> inputAudioContextRef (onerror playingApp) = Some (AudioContext 16000)
   \<and> outputAudioContextRef (onerror playingApp) = Some (AudioContext 24000)
   \<and> sourcesRef (onerror playingApp) = [\<lparr>node_id = 0, buffer = clip\<rparr>]
   \<and> newCalls playingApp (onerror playingApp) = [ConsoleError ''Session error:'']
   \<and> holdsDevice (onerror playingApp)
   \<and> session (startSession deniedStart initialApp) =
       \<lparr>isActive = False, isConnecting = False, mode = AUTO, error = Some ''Permission denied''\<rparr>
   \<and> \<not> holdsDevice (startSession deniedStart initialApp)
   \<and> session (startSession noOutputStart initialApp) =
       \<lparr>isActive = False, isConnecting = False, mode = AUTO, error = Some ''Failed to connect.''\<rparr>
   \<and> micStream (startSession noOutputStart initialApp) = Some \<lparr>getTracks = [0]\<rparr>
   \<and> newCalls initialApp (startSession noOutputStart initialApp) =
       [ConsoleError ''Failed to start session:'']"
  by (simp add: playingApp_eval onerror_def startSession_def startFailed_def deniedStart_def
      noOutputStart_def initialApp_def holdsDevice_def newCalls_def)


end
